theory Spec2Isabelle
  imports Main "HOL-Library.Word"
begin

chapter \<open>The task list of \<open>src/components/TodoApp.tsx\<close>\<close>

text \<open>
  The component keeps four pieces of React state (\<open>tasks\<close>, \<open>newTaskText\<close>,
  \<open>editingId\<close>, \<open>editingText\<close>), mirrors \<open>tasks\<close> into \<open>localStorage\<close> under
  the key \<open>"todos"\<close>, and reports some actions through \<open>toast\<close>. Every handler reads
  the state of the render it was created in and stores new values with the setters, so
  a handler is a function from the rendered state to the next state. What the handlers
  take from the platform (the clock, \<open>String.prototype.trim\<close>, \<open>Number.prototype.toString\<close>,
  \<open>JSON\<close>, \<open>Date\<close>, \<open>localStorage\<close>) is either written out below or passed in as a
  parameter.
\<close>

section \<open>Platform values\<close>

subsection \<open>Strings\<close>

text \<open>
  An ECMAScript string is a sequence of 16-bit code units. \<open>str\<close> writes an ASCII
  literal as such a sequence.
\<close>

type_synonym jsstring = "16 word list"

definition str :: "string \<Rightarrow> jsstring" where
  "str s = map (\<lambda>c. of_nat (of_char c)) s"

text \<open>
  \<open>if (s)\<close> on a string: the empty string is falsy, every other string is truthy.
  \<open>editingId\<close> has type \<open>string | null\<close>; \<open>null\<close> is falsy as well.
\<close>

definition truthy :: "jsstring \<Rightarrow> bool" where
  "truthy s \<longleftrightarrow> s \<noteq> []"

definition truthy_opt :: "jsstring option \<Rightarrow> bool" where
  "truthy_opt v = (case v of None \<Rightarrow> False | Some s \<Rightarrow> truthy s)"

text \<open>
  \<open>String.prototype.trim\<close> removes leading and trailing white space and line
  terminators: TAB, VT, FF, SP, NBSP, ZWNBSP, the Unicode space separators (category Zs)
  and LF, CR, LS, PS. All of them are single code units.
\<close>

definition isWhiteSpace :: "16 word \<Rightarrow> bool" where
  "isWhiteSpace c \<longleftrightarrow>
     c = 0x0009 \<or> c = 0x000A \<or> c = 0x000B \<or> c = 0x000C \<or> c = 0x000D \<or> c = 0x0020 \<or>
     c = 0x00A0 \<or> c = 0x1680 \<or> (0x2000 \<le> c \<and> c \<le> 0x200A) \<or> c = 0x2028 \<or>
     c = 0x2029 \<or> c = 0x202F \<or> c = 0x205F \<or> c = 0x3000 \<or> c = 0xFEFF"

definition trim :: "jsstring \<Rightarrow> jsstring" where
  "trim s = rev (dropWhile isWhiteSpace (rev (dropWhile isWhiteSpace s)))"

subsection \<open>Numbers as text\<close>

text \<open>
  \<open>Date.now()\<close> is an integral number of milliseconds, of magnitude at most
  \<open>8.64e15\<close>; on such a number \<open>toString()\<close> is the decimal numeral, with a leading
  minus sign below zero. \<open>undigits\<close> reads a numeral back; only proofs use it.
\<close>

definition digit :: "nat \<Rightarrow> 16 word" where
  "digit d = of_nat (48 + d)"

fun digits :: "nat \<Rightarrow> jsstring" where
  "digits n = (if n < 10 then [digit n] else digits (n div 10) @ [digit (n mod 10)])"

definition Number_toString :: "int \<Rightarrow> jsstring" where
  "Number_toString n = (if n < 0 then 0x002D # digits (nat (- n)) else digits (nat n))"

definition undigits :: "jsstring \<Rightarrow> nat" where
  "undigits s = foldl (\<lambda>a c. 10 * a + (unat c - 48)) 0 s"

subsection \<open>Dates\<close>

text \<open>
  A \<open>Date\<close> object holds a time value: an integral number of milliseconds since the
  epoch, of magnitude at most \<open>8.64e15\<close>, or \<open>NaN\<close> (an invalid date). \<open>new Date()\<close>
  holds the current clock reading.
\<close>

datatype Date = Date_ms int | Invalid_Date

definition valid_Date :: "Date \<Rightarrow> bool" where
  "valid_Date d =
     (case d of Date_ms ms \<Rightarrow> \<bar>ms\<bar> \<le> 8640000000000000 | Invalid_Date \<Rightarrow> False)"

section \<open>The task store\<close>

text \<open>
  \<open>interface Task\<close> (lines 8 to 13). The fields \<open>id\<close> and \<open>text\<close> are written
  \<open>task_id\<close> and \<open>task_text\<close>.
\<close>

record Task =
  task_id :: jsstring
  task_text :: jsstring
  completed :: bool
  createdAt :: Date

text \<open>The three notifications the handlers send to \<open>toast\<close>, by their titles.\<close>

datatype toast = Task_added | Task_deleted | Task_updated

text \<open>
  The component's state (lines 16 to 19), and the notifications sent so far. The
  initial state is the one \<open>useState\<close> is given.
\<close>

record State =
  tasks :: "Task list"
  newTaskText :: jsstring
  editingId :: "jsstring option"
  editingText :: jsstring
  toasts :: "toast list"

definition initial_State :: State where
  "initial_State =
     \<lparr>tasks = [], newTaskText = [], editingId = None, editingText = [], toasts = []\<rparr>"

text \<open>
  The two input fields store what is typed (\<open>onChange\<close>, lines 120 and 186).
\<close>

definition setNewTaskText :: "jsstring \<Rightarrow> State \<Rightarrow> State" where
  "setNewTaskText v s = s\<lparr>newTaskText := v\<rparr>"

definition setEditingText :: "jsstring \<Rightarrow> State \<Rightarrow> State" where
  "setEditingText v s = s\<lparr>editingText := v\<rparr>"

text \<open>
  \<open>addTask\<close> (lines 43 to 58). It reads the clock twice: \<open>dateNow\<close> is what
  \<open>Date.now()\<close> returns and \<open>newDate\<close> the time value of \<open>new Date()\<close>.
\<close>

definition addTask :: "int \<Rightarrow> int \<Rightarrow> State \<Rightarrow> State" where
  "addTask dateNow newDate s =
     (if truthy (trim (newTaskText s)) then
        let newTask =
          \<lparr>task_id = Number_toString dateNow,
           task_text = trim (newTaskText s),
           completed = False,
           createdAt = Date_ms newDate\<rparr>
        in s\<lparr>tasks := newTask # tasks s,
             newTaskText := [],
             toasts := toasts s @ [Task_added]\<rparr>
      else s)"

text \<open>\<open>toggleTask\<close> (lines 60 to 64).\<close>

definition toggleTask :: "jsstring \<Rightarrow> State \<Rightarrow> State" where
  "toggleTask i s =
     s\<lparr>tasks :=
         map (\<lambda>task. if task_id task = i then task\<lparr>completed := \<not> completed task\<rparr> else task)
           (tasks s)\<rparr>"

text \<open>\<open>deleteTask\<close> (lines 66 to 73); the notification is sent whatever was removed.\<close>

definition deleteTask :: "jsstring \<Rightarrow> State \<Rightarrow> State" where
  "deleteTask i s =
     s\<lparr>tasks := filter (\<lambda>task. task_id task \<noteq> i) (tasks s),
       toasts := toasts s @ [Task_deleted]\<rparr>"

text \<open>\<open>startEditing\<close> (lines 75 to 78).\<close>

definition startEditing :: "jsstring \<Rightarrow> jsstring \<Rightarrow> State \<Rightarrow> State" where
  "startEditing i txt s = s\<lparr>editingId := Some i, editingText := txt\<rparr>"

text \<open>
  \<open>saveEdit\<close> (lines 80 to 92). The guard \<open>editingText.trim() && editingId\<close> asks for
  both values to be truthy; \<open>task.id === editingId\<close> compares a string with a
  \<open>string | null\<close>.
\<close>

definition saveEdit :: "State \<Rightarrow> State" where
  "saveEdit s =
     (if truthy (trim (editingText s)) \<and> truthy_opt (editingId s) then
        s\<lparr>tasks :=
            map (\<lambda>task. if Some (task_id task) = editingId s
                         then task\<lparr>task_text := trim (editingText s)\<rparr> else task)
              (tasks s),
          editingId := None,
          editingText := [],
          toasts := toasts s @ [Task_updated]\<rparr>
      else s)"

text \<open>\<open>cancelEdit\<close> (lines 94 to 97).\<close>

definition cancelEdit :: "State \<Rightarrow> State" where
  "cancelEdit s = s\<lparr>editingId := None, editingText := []\<rparr>"

text \<open>
  What the user can do, one event per handler call, and the state after a sequence of
  events. An \<open>AddTask\<close> event carries the two clock readings of that call.
\<close>

datatype event =
    SetNewTaskText jsstring
  | AddTask int int
  | ToggleTask jsstring
  | DeleteTask jsstring
  | StartEditing jsstring jsstring
  | SetEditingText jsstring
  | SaveEdit
  | CancelEdit

fun handle :: "event \<Rightarrow> State \<Rightarrow> State" where
  "handle (SetNewTaskText v) s = setNewTaskText v s"
| "handle (AddTask dateNow newDate) s = addTask dateNow newDate s"
| "handle (ToggleTask i) s = toggleTask i s"
| "handle (DeleteTask i) s = deleteTask i s"
| "handle (StartEditing i txt) s = startEditing i txt s"
| "handle (SetEditingText v) s = setEditingText v s"
| "handle SaveEdit s = saveEdit s"
| "handle CancelEdit s = cancelEdit s"

fun run :: "event list \<Rightarrow> State \<Rightarrow> State" where
  "run [] s = s"
| "run (e # es) s = run es (handle e s)"

text \<open>
  The \<open>Date.now()\<close> readings \<open>addTask\<close> takes while a sequence of events runs from
  state \<open>s\<close>, in order: one for each call whose guard holds (a call with a blank input
  field does not read the clock).
\<close>

fun clock_reads :: "event list \<Rightarrow> State \<Rightarrow> int list" where
  "clock_reads [] s = []"
| "clock_reads (AddTask dateNow newDate # es) s =
     (if truthy (trim (newTaskText s)) then [dateNow] else []) @
       clock_reads es (addTask dateNow newDate s)"
| "clock_reads (e # es) s = clock_reads es (handle e s)"

text \<open>The ids held by the store, in display order.\<close>

definition ids :: "State \<Rightarrow> jsstring list" where
  "ids s = map task_id (tasks s)"

section \<open>Persistence\<close>

subsection \<open>What the platform provides\<close>

text \<open>
  A JSON value, as \<open>JSON.parse\<close> returns it. The numbers are the platform's; no
  function below looks into one. An object lists its properties in order.
\<close>

datatype 'n json =
    JNull
  | JBool bool
  | JNum 'n
  | JStr jsstring
  | JArr "'n json list"
  | JObj "(jsstring \<times> 'n json) list"

text \<open>
  The objects the load effect builds have JSON values as their properties, but for
  \<open>createdAt\<close>, which is a \<open>Date\<close> object.
\<close>

datatype 'n jsval = Json "'n json" | DateObj Date

type_synonym 'n obj = "(jsstring \<times> 'n jsval) list"

datatype js_error = SyntaxError | TypeError

text \<open>
  The platform functions the two effects call, taken as parameters:
  \<^item> \<open>JSON_parse\<close>: \<open>JSON.parse\<close> of a string; \<open>None\<close> when it throws a \<open>SyntaxError\<close>;
  \<^item> \<open>JSON_stringify\<close>: the text \<open>JSON.stringify\<close> prints for a JSON value;
  \<^item> \<open>Date_toISOString\<close>: \<open>Date.prototype.toISOString\<close> of a valid time value;
  \<^item> \<open>new_Date\<close>: the date \<open>new Date(v)\<close> constructs for a JSON value \<open>v\<close>, or for
    \<open>undefined\<close> (\<open>None\<close>), where the constructor returns (\<open>construct_Date\<close> below
    says where it throws).

  \<open>localStorage\<close> maps keys to strings; \<open>getItem\<close> of a key that is not set returns
  \<open>null\<close>. Reading and writing it are taken to succeed.
\<close>

record 'n platform =
  JSON_parse :: "jsstring \<Rightarrow> 'n json option"
  JSON_stringify :: "'n json \<Rightarrow> jsstring"
  Date_toISOString :: "int \<Rightarrow> jsstring"
  new_Date :: "'n json option \<Rightarrow> Date"

type_synonym storage = "jsstring \<rightharpoonup> jsstring"

text \<open>The key \<open>'todos'\<close> of lines 24 and 40.\<close>

definition todos_key :: jsstring where
  "todos_key = str ''todos''"

subsection \<open>The load effect (lines 23 to 36)\<close>

text \<open>
  \<open>{...task}\<close> copies the own enumerable properties of \<open>task\<close>, which has type \<open>any\<close>:
  the properties of an object, the indexed elements of an array, the indexed code units
  of a string, and nothing of \<open>null\<close>, a boolean or a number.
\<close>

fun spread :: "'n json \<Rightarrow> 'n obj" where
  "spread (JObj kvs) = map (\<lambda>(k, v). (k, Json v)) kvs"
| "spread (JArr xs) = map (\<lambda>(i, v). (Number_toString (int i), Json v)) (enumerate 0 xs)"
| "spread (JStr s) = map (\<lambda>(i, c). (Number_toString (int i), Json (JStr [c]))) (enumerate 0 s)"
| "spread _ = []"

text \<open>
  \<open>task.createdAt\<close>: a \<open>TypeError\<close> on \<open>null\<close>; the property's value on an object that
  has it; \<open>undefined\<close> (\<open>None\<close>) otherwise.
\<close>

fun get_createdAt :: "'n json \<Rightarrow> js_error + 'n json option" where
  "get_createdAt JNull = Inl TypeError"
| "get_createdAt (JObj kvs) = Inr (map_of kvs (str ''createdAt''))"
| "get_createdAt _ = Inr None"

text \<open>
  A property written after the spread replaces the value of a property of that name
  where it stands, and is added last when there is none.
\<close>

definition set_prop :: "jsstring \<Rightarrow> 'n jsval \<Rightarrow> 'n obj \<Rightarrow> 'n obj" where
  "set_prop k v ob =
     (if k \<in> set (map fst ob) then map (\<lambda>(k', v'). if k' = k then (k', v) else (k', v')) ob
      else ob @ [(k, v)])"

text \<open>
  \<open>new Date(v)\<close> first makes a primitive of \<open>v\<close> (\<open>ToPrimitive\<close>). For an object it
  calls \<open>valueOf\<close>, which returns the object itself unless an own property hides it,
  and then \<open>toString\<close>; an own property \<open>toString\<close> of a parsed object is a JSON value,
  so not callable, and then no primitive is found and a \<open>TypeError\<close> is thrown. Without
  it \<open>Object.prototype.toString\<close> returns a string. On an array \<open>toString\<close> joins the
  strings of the elements, so it throws where one of them (but \<open>null\<close>, which gives the
  empty string) does. Nothing is thrown on a string, a number, a boolean, \<open>null\<close> or
  \<open>undefined\<close>. The platform's resource limits (the stack, on arrays nested thousands
  deep) are not modelled.
\<close>

fun ToPrimitive_throws :: "'n json \<Rightarrow> bool" where
  "ToPrimitive_throws (JObj kvs) \<longleftrightarrow> str ''toString'' \<in> set (map fst kvs)"
| "ToPrimitive_throws (JArr xs) \<longleftrightarrow> list_ex ToPrimitive_throws xs"
| "ToPrimitive_throws _ \<longleftrightarrow> False"

definition construct_Date :: "'n platform \<Rightarrow> 'n json option \<Rightarrow> js_error + Date" where
  "construct_Date P v =
     (case v of
        None \<Rightarrow> Inr (new_Date P None)
      | Some j \<Rightarrow> if ToPrimitive_throws j then Inl TypeError else Inr (new_Date P (Some j)))"

text \<open>
  The arrow function of lines 27 to 30:
  \<open>(task: any) => ({...task, createdAt: new Date(task.createdAt)})\<close>.
\<close>

definition revive :: "'n platform \<Rightarrow> 'n json \<Rightarrow> js_error + 'n obj" where
  "revive P task =
     (case get_createdAt task of
        Inl e \<Rightarrow> Inl e
      | Inr c \<Rightarrow>
          (case construct_Date P c of
             Inl e \<Rightarrow> Inl e
           | Inr d \<Rightarrow> Inr (set_prop (str ''createdAt'') (DateObj d) (spread task))))"

text \<open>
  The elements on which the arrow function throws: \<open>null\<close>, and an element whose
  \<open>createdAt\<close> is a value the \<open>Date\<close> constructor throws on.
\<close>

definition callback_throws :: "'n json \<Rightarrow> bool" where
  "callback_throws task =
     (case get_createdAt task of
        Inl e \<Rightarrow> True
      | Inr None \<Rightarrow> False
      | Inr (Some v) \<Rightarrow> ToPrimitive_throws v)"

text \<open>\<open>Array.prototype.map\<close> with a callback that may throw: the first throw ends it.\<close>

fun array_map :: "('a \<Rightarrow> js_error + 'b) \<Rightarrow> 'a list \<Rightarrow> js_error + 'b list" where
  "array_map f [] = Inr []"
| "array_map f (x # xs) =
     (case f x of
        Inl e \<Rightarrow> Inl e
      | Inr y \<Rightarrow> (case array_map f xs of Inl e \<Rightarrow> Inl e | Inr ys \<Rightarrow> Inr (y # ys)))"

text \<open>
  The expression of the \<open>try\<close> block, \<open>JSON.parse(savedTasks).map(...)\<close>. A parsed value
  that is not an array has no function \<open>map\<close>, and the call throws a \<open>TypeError\<close>.
\<close>

definition parse_tasks :: "'n platform \<Rightarrow> jsstring \<Rightarrow> js_error + 'n obj list" where
  "parse_tasks P savedTasks =
     (case JSON_parse P savedTasks of
        None \<Rightarrow> Inl SyntaxError
      | Some (JArr xs) \<Rightarrow> array_map (revive P) xs
      | Some _ \<Rightarrow> Inl TypeError)"

text \<open>
  The effect: \<open>Some parsedTasks\<close> when it calls \<open>setTasks(parsedTasks)\<close>, \<open>None\<close> when it
  does not (nothing stored, a falsy stored string, or an exception, which the \<open>catch\<close>
  logs and drops).
\<close>

definition load_effect :: "'n platform \<Rightarrow> storage \<Rightarrow> 'n obj list option" where
  "load_effect P localStorage =
     (case localStorage todos_key of
        None \<Rightarrow> None
      | Some savedTasks \<Rightarrow>
          if truthy savedTasks then
            (case parse_tasks P savedTasks of
               Inl error \<Rightarrow> None
             | Inr parsedTasks \<Rightarrow> Some parsedTasks)
          else None)"

text \<open>
  The tasks after the effect has run on mount: those given to \<open>setTasks\<close>, or the empty
  array \<open>useState\<close> started with.
\<close>

definition load :: "'n platform \<Rightarrow> storage \<Rightarrow> 'n obj list" where
  "load P localStorage =
     (case load_effect P localStorage of None \<Rightarrow> [] | Some parsedTasks \<Rightarrow> parsedTasks)"

subsection \<open>The save effect (lines 39 to 41)\<close>

text \<open>
  \<open>JSON.stringify(tasks)\<close> prints the JSON value of \<open>tasks\<close>. A task gives an object of
  its four properties in the order \<open>addTask\<close> wrote them; a \<open>Date\<close> gives what its
  \<open>toJSON\<close> returns, the ISO string of a valid date and \<open>null\<close> for an invalid one.
\<close>

definition Date_toJSON :: "'n platform \<Rightarrow> Date \<Rightarrow> 'n json" where
  "Date_toJSON P d =
     (case d of Date_ms ms \<Rightarrow> JStr (Date_toISOString P ms) | Invalid_Date \<Rightarrow> JNull)"

definition Task_toJSON :: "'n platform \<Rightarrow> Task \<Rightarrow> 'n json" where
  "Task_toJSON P t =
     JObj [(str ''id'', JStr (task_id t)),
           (str ''text'', JStr (task_text t)),
           (str ''completed'', JBool (completed t)),
           (str ''createdAt'', Date_toJSON P (createdAt t))]"

definition save :: "'n platform \<Rightarrow> Task list \<Rightarrow> storage \<Rightarrow> storage" where
  "save P ts localStorage =
     localStorage(todos_key \<mapsto> JSON_stringify P (JArr (map (Task_toJSON P) ts)))"

subsection \<open>Tasks among the loaded objects\<close>

text \<open>
  The object a \<open>Task\<close> is at run time. A loaded object is a task exactly when it is
  \<open>obj_of_Task t\<close> for some \<open>t\<close>.
\<close>

definition obj_of_Task :: "Task \<Rightarrow> 'n obj" where
  "obj_of_Task t =
     [(str ''id'', Json (JStr (task_id t))),
      (str ''text'', Json (JStr (task_text t))),
      (str ''completed'', Json (JBool (completed t))),
      (str ''createdAt'', DateObj (createdAt t))]"

definition is_array :: "'n json \<Rightarrow> bool" where
  "is_array j = (case j of JArr xs \<Rightarrow> True | _ \<Rightarrow> False)"

section \<open>Example states\<close>

text \<open>
  Three tasks, two of which share the id \<open>"1"\<close>, and one task whose id is the empty
  string; a store that holds a given list of tasks; and a store in which the user has
  pressed the edit button of task \<open>t\<close> (\<open>startEditing(task.id, task.text)\<close>, line 214)
  and typed \<open>txt\<close> into the edit field.
\<close>

definition milk :: Task where
  "milk = \<lparr>task_id = str ''1'', task_text = str ''Buy milk'', completed = False,
            createdAt = Date_ms 1\<rparr>"

definition bread :: Task where
  "bread = \<lparr>task_id = str ''2'', task_text = str ''Buy bread'', completed = True,
             createdAt = Date_ms 2\<rparr>"

definition twin :: Task where
  "twin = \<lparr>task_id = str ''1'', task_text = str ''Buy tea'', completed = True,
            createdAt = Date_ms 3\<rparr>"

definition nameless :: Task where
  "nameless = \<lparr>task_id = [], task_text = str ''a'', completed = False, createdAt = Date_ms 1\<rparr>"

definition store_of :: "Task list \<Rightarrow> State" where
  "store_of ts = initial_State\<lparr>tasks := ts\<rparr>"

definition editing :: "Task list \<Rightarrow> Task \<Rightarrow> jsstring \<Rightarrow> State" where
  "editing ts t txt =
     setEditingText txt (startEditing (task_id t) (task_text t) (store_of ts))"

text \<open>
  A sample of the platform: a table of the values of its four functions at the
  arguments the examples pass to them, as ECMAScript defines them there. \<open>milk_text\<close> is
  what \<open>JSON.stringify\<close> prints for the array that holds \<open>milk\<close>, whose time value of one
  millisecond is \<open>1970-01-01T00:00:00.001Z\<close>; \<open>JSON.parse\<close> throws on the empty string and
  on \<open>oops\<close>, which are not in the table; \<open>new Date(undefined)\<close> is an invalid date. The
  sample takes the integers as its numbers. At every other argument it returns a fixed
  default, which no example reads.
\<close>

definition milk_text :: jsstring where
  \<open>milk_text =
     str ''[{"id":"1","text":"Buy milk","completed":false,"createdAt":"1970-01-01T00:00:00.001Z"}]''\<close>

definition milk_json :: "int json" where
  "milk_json =
     JArr [JObj [(str ''id'', JStr (str ''1'')),
                 (str ''text'', JStr (str ''Buy milk'')),
                 (str ''completed'', JBool False),
                 (str ''createdAt'', JStr (str ''1970-01-01T00:00:00.001Z''))]]"

definition sample_platform :: "int platform" where
  \<open>sample_platform =
     \<lparr>JSON_parse = map_of
        [(milk_text, milk_json),
         (str ''[{}]'', JArr [JObj []]),
         (str ''[null]'', JArr [JNull]),
         (str ''[{"createdAt":{"toString":0}}]'',
            JArr [JObj [(str ''createdAt'', JObj [(str ''toString'', JNum 0)])]]),
         (str ''{"a":[]}'', JObj [(str ''a'', JArr [])]),
         (str ''[]'', JArr [])],
      JSON_stringify = (\<lambda>j. if j = milk_json then milk_text else str ''[]''),
      Date_toISOString = (\<lambda>ms. if ms = 1 then str ''1970-01-01T00:00:00.001Z'' else []),
      new_Date = (\<lambda>v. if v = Some (JStr (str ''1970-01-01T00:00:00.001Z'')) then Date_ms 1
                       else Invalid_Date)\<rparr>\<close>

chapter \<open>Properties\<close>

section \<open>Strings and numerals\<close>

declare digits.simps [simp del]

lemma digits_small: "n < 10 \<Longrightarrow> digits n = [digit n]"
  by (simp add: digits.simps)

lemma digits_large: "10 \<le> n \<Longrightarrow> digits n = digits (n div 10) @ [digit (n mod 10)]"
  by (subst digits.simps) simp

lemma unat_digit: "d < 10 \<Longrightarrow> unat (digit d) = 48 + d"
  unfolding digit_def by (subst unat_of_nat) simp

lemma undigits_snoc: "undigits (s @ [c]) = 10 * undigits s + (unat c - 48)"
  by (simp add: undigits_def)

lemma undigits_digits: "undigits (digits n) = n"
proof (induction n rule: digits.induct)
  case (1 n)
  show ?case
  proof (cases "n < 10")
    case True
    then show ?thesis by (simp add: digits_small undigits_def unat_digit)
  next
    case False
    then have "undigits (digits (n div 10)) = n div 10" using "1.IH" by simp
    with False show ?thesis
      by (simp add: digits_large undigits_snoc unat_digit)
  qed
qed

lemma digits_inj: "digits m = digits n \<Longrightarrow> m = n"
  by (metis undigits_digits)

lemma digit_not_minus: "d < 10 \<Longrightarrow> digit d \<noteq> 0x002D"
proof
  assume "d < 10" and "digit d = 0x002D"
  then have "unat (digit d) = unat (0x002D :: 16 word)" by simp
  with \<open>d < 10\<close> show False by (simp add: unat_digit)
qed

lemma hd_digits: "hd (digits n) \<noteq> 0x002D \<and> digits n \<noteq> []"
proof (induction n rule: digits.induct)
  case (1 n)
  show ?case
  proof (cases "n < 10")
    case True
    then show ?thesis by (simp add: digits_small digit_not_minus)
  next
    case False
    then have "hd (digits (n div 10)) \<noteq> 0x002D \<and> digits (n div 10) \<noteq> []"
      using "1.IH" by simp
    with False show ?thesis by (simp add: digits_large)
  qed
qed

lemma Number_toString_inj: "Number_toString m = Number_toString n \<Longrightarrow> m = n"
proof -
  assume eq: "Number_toString m = Number_toString n"
  have neg_pos: "0x002D # digits a \<noteq> digits b" for a b
    using hd_digits [of b] by (cases "digits b") auto
  show "m = n"
  proof (cases "m < 0"; cases "n < 0")
    assume "m < 0" "n < 0"
    with eq have "nat (- m) = nat (- n)" by (simp add: Number_toString_def digits_inj)
    with \<open>m < 0\<close> \<open>n < 0\<close> show ?thesis by simp
  next
    assume "m < 0" "\<not> n < 0"
    with eq neg_pos show ?thesis by (simp add: Number_toString_def)
  next
    assume "\<not> m < 0" "n < 0"
    with eq neg_pos [of "nat (- n)" "nat m"] show ?thesis by (simp add: Number_toString_def)
  next
    assume "\<not> m < 0" "\<not> n < 0"
    with eq have "nat m = nat n" by (simp add: Number_toString_def digits_inj)
    with \<open>\<not> m < 0\<close> \<open>\<not> n < 0\<close> show ?thesis by simp
  qed
qed

lemma truthy_simps [simp]: "truthy s \<longleftrightarrow> s \<noteq> []" "truthy_opt None = False"
  "truthy_opt (Some s) \<longleftrightarrow> s \<noteq> []"
  by (simp_all add: truthy_def truthy_opt_def)

lemma str_eval:
  "str ''1'' = [0x31]" "str ''2'' = [0x32]" "str ''5'' = [0x35]"
  by (simp_all add: str_def)

lemma trim_eval:
  "trim [] = []"
  "trim (str ''   '') = []"
  "trim (str ''Buy milk'') = str ''Buy milk''"
  "trim (str ''  Buy oat milk '') = str ''Buy oat milk''"
  "trim (str ''a'') = str ''a''"
  "trim (str ''b'') = str ''b''"
  "trim (str ''c'') = str ''c''"
  by code_simp+

lemma toString_eval:
  "Number_toString 5 = str ''5''"
  "Number_toString 1 = str ''1''"
  "Number_toString 2 = str ''2''"
  by code_simp+

lemma str_eq_Nil [simp]: "str s = [] \<longleftrightarrow> s = []"
  by (simp add: str_def)

section \<open>Adding a task\<close>

text \<open>
  C3. \<open>addTask\<close> with an input field whose trimmed content is empty (as \<open>""\<close> or
  \<open>"   "\<close>) changes nothing: the state after the call is the state before it, so the
  task collection and its length are unchanged (and no notification is sent).
\<close>

theorem addTask_blank_noop:
  assumes "trim (newTaskText s) = []"
  shows "addTask dateNow newDate s = s
    \<and> tasks (addTask dateNow newDate s) = tasks s
    \<and> length (tasks (addTask dateNow newDate s)) = length (tasks s)"
  using assms by (simp add: addTask_def)

theorem addTask_blank_noop_witness:
  "trim (newTaskText (setNewTaskText (str ''   '') (store_of [milk]))) = []
   \<and> tasks (addTask 5 5 (setNewTaskText (str ''   '') (store_of [milk]))) = [milk]
   \<and> tasks (addTask 5 5 (setNewTaskText [] (store_of [milk]))) = [milk]"
proof -
  have a: "trim (newTaskText (setNewTaskText (str ''   '') (store_of [milk]))) = []"
    by (simp add: setNewTaskText_def trim_eval)
  have b: "trim (newTaskText (setNewTaskText [] (store_of [milk]))) = []"
    by (simp add: setNewTaskText_def trim_eval)
  show ?thesis
    using a addTask_blank_noop [OF a, of 5 5] addTask_blank_noop [OF b, of 5 5]
    by (simp add: setNewTaskText_def store_of_def)
qed

text \<open>
  C4, as the claim states it, fails in its first clause: the id \<open>addTask\<close> gives the
  new task need not be new to the store. It is the decimal numeral of the clock reading,
  and is compared with nothing. After one add at the reading 5, a second add at the same
  reading gives the new task the id \<open>"5"\<close>, which the store already holds.
\<close>

theorem addTask_held_id_counterexample:
  "ids (run [SetNewTaskText (str ''a''), AddTask 5 5, SetNewTaskText (str ''b'')] initial_State) =
     [str ''5'']
   \<and> trim (newTaskText
         (run [SetNewTaskText (str ''a''), AddTask 5 5, SetNewTaskText (str ''b'')] initial_State)) =
       str ''b''
   \<and> str ''b'' \<noteq> []
   \<and> task_id (hd (tasks (addTask 5 6
         (run [SetNewTaskText (str ''a''), AddTask 5 5, SetNewTaskText (str ''b'')] initial_State)))) =
       str ''5''"
  by (simp add: ids_def setNewTaskText_def addTask_def initial_State_def trim_eval
      toString_eval)

text \<open>
  C4, amended. \<open>addTask\<close> with an input field whose trimmed content is not empty puts
  one new task in front of the tasks held before, which follow unchanged and in their
  order. The new task has the trimmed input as its text, \<open>completed = false\<close>, the current
  time (the \<open>new Date()\<close> reading) as \<open>createdAt\<close>, and as its id the decimal numeral of
  the \<open>Date.now()\<close> reading of this call. That id is new to the store exactly when no task
  held has that numeral as its id: the ids after the call are pairwise distinct if and
  only if they were before and the numeral is not among them.
\<close>

theorem addTask_prepends:
  assumes "trim (newTaskText s) \<noteq> []"
  shows "tasks (addTask dateNow newDate s) =
      \<lparr>task_id = Number_toString dateNow, task_text = trim (newTaskText s),
       completed = False, createdAt = Date_ms newDate\<rparr> # tasks s
    \<and> ids (addTask dateNow newDate s) = Number_toString dateNow # ids s
    \<and> (distinct (ids (addTask dateNow newDate s)) \<longleftrightarrow>
         distinct (ids s) \<and> Number_toString dateNow \<notin> set (ids s))"
  using assms by (auto simp add: addTask_def ids_def)

theorem addTask_prepends_witness:
  "trim (newTaskText (setNewTaskText (str ''  Buy oat milk '') (store_of [milk, bread]))) \<noteq> []
   \<and> tasks (addTask 5 6 (setNewTaskText (str ''  Buy oat milk '') (store_of [milk, bread]))) =
       [\<lparr>task_id = str ''5'', task_text = str ''Buy oat milk'', completed = False,
         createdAt = Date_ms 6\<rparr>, milk, bread]
   \<and> ids (addTask 5 6 (setNewTaskText (str ''  Buy oat milk '') (store_of [milk, bread]))) =
       [str ''5'', str ''1'', str ''2'']
   \<and> distinct (ids (addTask 5 6 (setNewTaskText (str ''  Buy oat milk '') (store_of [milk, bread]))))"
proof -
  let ?s = "setNewTaskText (str ''  Buy oat milk '') (store_of [milk, bread])"
  have a: "trim (newTaskText ?s) \<noteq> []"
    by (simp add: setNewTaskText_def trim_eval)
  have i: "ids ?s = [str ''1'', str ''2'']"
    by (simp add: ids_def setNewTaskText_def store_of_def milk_def bread_def)
  have t: "tasks ?s = [milk, bread]" "trim (newTaskText ?s) = str ''Buy oat milk''"
    by (simp_all add: setNewTaskText_def store_of_def trim_eval)
  have d: "distinct [str ''1'', str ''2'']" "str ''5'' \<notin> set [str ''1'', str ''2'']"
    by (simp_all add: str_eval)
  from addTask_prepends [OF a, of 5 6]
  have "tasks (addTask 5 6 ?s) =
      [\<lparr>task_id = str ''5'', task_text = str ''Buy oat milk'', completed = False,
        createdAt = Date_ms 6\<rparr>, milk, bread]"
    and "ids (addTask 5 6 ?s) = [str ''5'', str ''1'', str ''2'']"
    and "distinct (ids (addTask 5 6 ?s))"
    unfolding i t toString_eval using d by simp_all
  with a show ?thesis by simp
qed

section \<open>Toggling and deleting\<close>

text \<open>
  C5. Toggling the same id twice in succession gives back the state before the first
  call: every task has its original \<open>completed\<close> value, and the collection is the
  original one. This holds for every id, present or not.
\<close>

theorem toggleTask_involution:
  "toggleTask i (toggleTask i s) = s"
proof -
  have "map (\<lambda>task. if task_id task = i then task\<lparr>completed := \<not> completed task\<rparr> else task)
          (map (\<lambda>task. if task_id task = i then task\<lparr>completed := \<not> completed task\<rparr> else task) ts)
        = ts" for ts :: "Task list"
    by (induction ts) auto
  then show ?thesis by (simp add: toggleTask_def)
qed

theorem toggleTask_involution_witness:
  "completed (hd (tasks (toggleTask (str ''1'') (store_of [milk, bread])))) = True
   \<and> toggleTask (str ''1'') (toggleTask (str ''1'') (store_of [milk, bread])) = store_of [milk, bread]"
  using toggleTask_involution [of "str ''1''" "store_of [milk, bread]"]
  by (simp add: toggleTask_def store_of_def milk_def)

text \<open>
  C6. For an id that no task of the collection has, \<open>toggleTask\<close> and \<open>deleteTask\<close>
  leave the collection unchanged. Deleting an id a second time, right after deleting it,
  leaves the collection as the first call left it.
\<close>

theorem absent_id_noop:
  "(i \<notin> set (ids s) \<longrightarrow>
      tasks (toggleTask i s) = tasks s \<and> tasks (deleteTask i s) = tasks s)
   \<and> tasks (deleteTask i (deleteTask i s)) = tasks (deleteTask i s)"
proof -
  have "map (\<lambda>task. if task_id task = i then task\<lparr>completed := \<not> completed task\<rparr> else task) ts = ts"
    if "i \<notin> task_id ` set ts" for ts :: "Task list"
    using that by (induction ts) auto
  moreover have "filter (\<lambda>task. task_id task \<noteq> i) ts = ts"
    if "i \<notin> task_id ` set ts" for ts :: "Task list"
    using that by (induction ts) auto
  ultimately show ?thesis
    by (simp add: toggleTask_def deleteTask_def ids_def)
qed

theorem absent_id_noop_witness:
  "str ''5'' \<notin> set (ids (store_of [milk, bread]))
   \<and> tasks (toggleTask (str ''5'') (store_of [milk, bread])) = [milk, bread]
   \<and> tasks (deleteTask (str ''5'') (store_of [milk, bread])) = [milk, bread]
   \<and> tasks (deleteTask (str ''1'') (store_of [milk, bread])) = [bread]
   \<and> tasks (deleteTask (str ''1'') (deleteTask (str ''1'') (store_of [milk, bread]))) = [bread]"
proof -
  have a: "str ''5'' \<notin> set (ids (store_of [milk, bread]))"
    by (simp add: ids_def store_of_def milk_def bread_def str_eval)
  have b: "tasks (deleteTask (str ''1'') (store_of [milk, bread])) = [bread]"
    by (simp add: deleteTask_def store_of_def milk_def bread_def str_eval)
  show ?thesis
    using a b absent_id_noop [of "str ''5''" "store_of [milk, bread]"]
      absent_id_noop [of "str ''1''" "store_of [milk, bread]"]
    by (simp add: store_of_def)
qed

text \<open>
  C10. Where several tasks share an id, \<open>toggleTask\<close> and \<open>deleteTask\<close> act on all of
  them alike. \<open>toggleTask i\<close> keeps the length, the order and every field but
  \<open>completed\<close>, and flips \<open>completed\<close> at every position whose task has id \<open>i\<close>, and at
  no other. \<open>deleteTask i\<close> keeps exactly the tasks whose id is not \<open>i\<close>, in their
  order: no task with id \<open>i\<close> is left, and the length drops by the number of tasks that
  had it.
\<close>

theorem shared_id_uniform:
  "length (tasks (toggleTask i s)) = length (tasks s)
   \<and> (\<forall>k < length (tasks s).
         task_id (tasks (toggleTask i s) ! k) = task_id (tasks s ! k)
       \<and> task_text (tasks (toggleTask i s) ! k) = task_text (tasks s ! k)
       \<and> createdAt (tasks (toggleTask i s) ! k) = createdAt (tasks s ! k)
       \<and> completed (tasks (toggleTask i s) ! k) =
           (if task_id (tasks s ! k) = i then \<not> completed (tasks s ! k)
            else completed (tasks s ! k)))
   \<and> i \<notin> set (ids (deleteTask i s))
   \<and> tasks (deleteTask i s) = filter (\<lambda>task. task_id task \<noteq> i) (tasks s)
   \<and> length (tasks (deleteTask i s)) =
       length (tasks s) - length (filter (\<lambda>task. task_id task = i) (tasks s))"
proof -
  have len: "length (filter (\<lambda>task. task_id task \<noteq> i) ts) =
      length ts - length (filter (\<lambda>task. task_id task = i) ts)" for ts :: "Task list"
    using sum_length_filter_compl [of "\<lambda>task. task_id task = i" ts] by simp
  show ?thesis
    by (auto simp add: toggleTask_def deleteTask_def ids_def len)
qed

theorem shared_id_uniform_witness:
  "tasks (toggleTask (str ''1'') (store_of [milk, bread, twin])) =
     [milk\<lparr>completed := True\<rparr>, bread, twin\<lparr>completed := False\<rparr>]
   \<and> completed (tasks (toggleTask (str ''1'') (store_of [milk, bread, twin])) ! 0) = True
   \<and> completed (tasks (toggleTask (str ''1'') (store_of [milk, bread, twin])) ! 2) = False
   \<and> tasks (deleteTask (str ''1'') (store_of [milk, bread, twin])) = [bread]"
proof -
  have t: "tasks (store_of [milk, bread, twin]) = [milk, bread, twin]"
    by (simp add: store_of_def)
  have i: "task_id milk = str ''1''" "task_id twin = str ''1''" "task_id bread \<noteq> str ''1''"
    "completed milk = False" "completed twin = True"
    by (simp_all add: milk_def twin_def bread_def str_eval)
  from shared_id_uniform [of "str ''1''" "store_of [milk, bread, twin]"]
  have d: "tasks (deleteTask (str ''1'') (store_of [milk, bread, twin])) = [bread]"
    and c: "\<forall>k<3. completed (tasks (toggleTask (str ''1'') (store_of [milk, bread, twin])) ! k) =
           (if task_id ([milk, bread, twin] ! k) = str ''1'' then \<not> completed ([milk, bread, twin] ! k)
            else completed ([milk, bread, twin] ! k))"
    by (simp_all add: t i)
  have c0: "completed (tasks (toggleTask (str ''1'') (store_of [milk, bread, twin])) ! 0) = True"
    using c [rule_format, of 0] by (simp add: i)
  have c2: "completed (tasks (toggleTask (str ''1'') (store_of [milk, bread, twin])) ! 2) = False"
    using c [rule_format, of 2] by (simp add: i)
  have m: "tasks (toggleTask (str ''1'') (store_of [milk, bread, twin])) =
     [milk\<lparr>completed := True\<rparr>, bread, twin\<lparr>completed := False\<rparr>]"
    by (simp add: toggleTask_def t i)
  show ?thesis using m c0 c2 d by simp
qed

section \<open>Editing\<close>

text \<open>
  C2, as the claim states it, fails: \<open>saveEdit\<close> with an edit field that trims to the
  empty string does not end the edit session as \<open>cancelEdit\<close> does. After \<open>saveEdit\<close>
  the session is still open on the task, and the edit field still holds the blanks;
  after \<open>cancelEdit\<close> \<open>editingId\<close> is \<open>null\<close> and the field is empty.
\<close>

theorem saveEdit_blank_counterexample:
  "trim (editingText (editing [milk] milk (str ''   ''))) = []
   \<and> editingId (editing [milk] milk (str ''   '')) = Some (task_id milk)
   \<and> editingId (saveEdit (editing [milk] milk (str ''   ''))) = Some (str ''1'')
   \<and> editingText (saveEdit (editing [milk] milk (str ''   ''))) = str ''   ''
   \<and> editingId (cancelEdit (editing [milk] milk (str ''   ''))) = None
   \<and> editingText (cancelEdit (editing [milk] milk (str ''   ''))) = []"
  by (simp add: editing_def setEditingText_def startEditing_def store_of_def saveEdit_def
      cancelEdit_def trim_eval milk_def)

text \<open>
  C2, amended. \<open>saveEdit\<close> with an edit field that trims to the empty string changes
  nothing at all: the task collection (so every task's text) is unchanged, and so is the
  edit session, which stays open with \<open>editingId\<close> and \<open>editingText\<close> as they were.
\<close>

theorem saveEdit_blank_noop:
  assumes "trim (editingText s) = []"
  shows "saveEdit s = s"
  using assms by (simp add: saveEdit_def)

theorem saveEdit_blank_noop_witness:
  "trim (editingText (editing [milk] milk (str ''   ''))) = []
   \<and> saveEdit (editing [milk] milk (str ''   '')) = editing [milk] milk (str ''   '')
   \<and> tasks (saveEdit (editing [milk] milk (str ''   ''))) = [milk]"
proof -
  have a: "trim (editingText (editing [milk] milk (str ''   ''))) = []"
    by (simp add: editing_def setEditingText_def trim_eval)
  show ?thesis
    using a saveEdit_blank_noop [OF a]
    by (simp add: editing_def setEditingText_def startEditing_def store_of_def)
qed

text \<open>
  The guard of \<open>saveEdit\<close> (line 81) reads \<open>editingId\<close> as a truth value, and the check
  that opens the edit box (\<open>editingId === task.id\<close>, line 182) compares strings. They
  disagree on a task whose id is the empty string: the box opens and Save does nothing.
  No handler gives a task that id (a decimal numeral is not empty); it can only come
  from storage. The theorems on \<open>saveEdit\<close> below are about non-empty ids.
\<close>

lemma saveEdit_empty_id:
  "editingId (editing [nameless] nameless (str ''b'')) = Some (task_id nameless)
   \<and> trim (editingText (editing [nameless] nameless (str ''b''))) = str ''b''
   \<and> tasks (saveEdit (editing [nameless] nameless (str ''b''))) = [nameless]"
  by (simp add: editing_def setEditingText_def startEditing_def store_of_def saveEdit_def
      trim_eval nameless_def)

text \<open>
  C7, as the claim states it, fails where tasks share an id: \<open>saveEdit\<close> maps over the
  whole collection and replaces the text of every task whose id is \<open>editingId\<close>, not of
  one task only. Two adds at the clock reading 5 give two tasks with the id \<open>"5"\<close> and
  the texts \<open>b\<close> and \<open>a\<close>; an edit session opened on the first of them and saved with
  the text \<open>c\<close> changes the text of the second as well.
\<close>

theorem saveEdit_shared_id_counterexample:
  "ids (run [SetNewTaskText (str ''a''), AddTask 5 5, SetNewTaskText (str ''b''), AddTask 5 5,
             StartEditing (str ''5'') (str ''b''), SetEditingText (str ''c'')] initial_State) =
     [str ''5'', str ''5'']
   \<and> map task_text
        (tasks (run [SetNewTaskText (str ''a''), AddTask 5 5, SetNewTaskText (str ''b''), AddTask 5 5,
             StartEditing (str ''5'') (str ''b''), SetEditingText (str ''c'')] initial_State)) =
       [str ''b'', str ''a'']
   \<and> editingId (run [SetNewTaskText (str ''a''), AddTask 5 5, SetNewTaskText (str ''b''), AddTask 5 5,
             StartEditing (str ''5'') (str ''b''), SetEditingText (str ''c'')] initial_State) =
       Some (str ''5'')
   \<and> trim (editingText
        (run [SetNewTaskText (str ''a''), AddTask 5 5, SetNewTaskText (str ''b''), AddTask 5 5,
             StartEditing (str ''5'') (str ''b''), SetEditingText (str ''c'')] initial_State)) =
       str ''c''
   \<and> map task_text
        (tasks (saveEdit
          (run [SetNewTaskText (str ''a''), AddTask 5 5, SetNewTaskText (str ''b''), AddTask 5 5,
             StartEditing (str ''5'') (str ''b''), SetEditingText (str ''c'')] initial_State))) =
       [str ''c'', str ''c'']
   \<and> str ''a'' \<noteq> str ''c''"
proof -
  have "str ''5'' \<noteq> []" and "str ''c'' \<noteq> []" and "str ''a'' \<noteq> str ''c''"
    by (simp_all add: str_def)
  then show ?thesis
    by (simp add: ids_def setNewTaskText_def addTask_def startEditing_def setEditingText_def
        saveEdit_def initial_State_def trim_eval toString_eval)
qed

text \<open>
  C7, amended. With an edit session open on a non-empty id \<open>i\<close> and an edit field whose
  trimmed content is not empty, \<open>saveEdit\<close> keeps the length and the order of the
  collection and, at every position, the task's id, \<open>completed\<close> flag and \<open>createdAt\<close>;
  every task with id \<open>i\<close> gets the trimmed content as its text, and every task with
  another id is unchanged.
\<close>

theorem saveEdit_replaces_text:
  assumes "editingId s = Some i" and "i \<noteq> []" and "trim (editingText s) \<noteq> []"
  shows "length (tasks (saveEdit s)) = length (tasks s)
   \<and> (\<forall>k < length (tasks s).
         task_id (tasks (saveEdit s) ! k) = task_id (tasks s ! k)
       \<and> completed (tasks (saveEdit s) ! k) = completed (tasks s ! k)
       \<and> createdAt (tasks (saveEdit s) ! k) = createdAt (tasks s ! k)
       \<and> (if task_id (tasks s ! k) = i
           then task_text (tasks (saveEdit s) ! k) = trim (editingText s)
           else tasks (saveEdit s) ! k = tasks s ! k))"
  using assms by (auto simp add: saveEdit_def)

theorem saveEdit_replaces_text_witness:
  "editingId (editing [bread, milk] bread (str ''  Buy oat milk '')) = Some (task_id bread)
   \<and> task_id bread \<noteq> []
   \<and> trim (editingText (editing [bread, milk] bread (str ''  Buy oat milk ''))) \<noteq> []
   \<and> tasks (saveEdit (editing [bread, milk] bread (str ''  Buy oat milk ''))) =
       [bread\<lparr>task_text := str ''Buy oat milk''\<rparr>, milk]
   \<and> completed (tasks (saveEdit (editing [bread, milk] bread (str ''  Buy oat milk ''))) ! 0) = True"
proof -
  let ?s = "editing [bread, milk] bread (str ''  Buy oat milk '')"
  have a: "editingId ?s = Some (task_id bread)"
    by (simp add: editing_def setEditingText_def startEditing_def)
  have b: "task_id bread \<noteq> []" by (simp add: bread_def)
  have c: "trim (editingText ?s) \<noteq> []"
    by (simp add: editing_def setEditingText_def trim_eval)
  have t: "tasks ?s = [bread, milk]"
    by (simp add: editing_def setEditingText_def startEditing_def store_of_def)
  have m: "tasks (saveEdit ?s) = [bread\<lparr>task_text := str ''Buy oat milk''\<rparr>, milk]"
    by (simp add: saveEdit_def trim_eval editing_def setEditingText_def
        startEditing_def store_of_def bread_def milk_def str_eval)
  from saveEdit_replaces_text [OF a b c]
  have "completed (tasks (saveEdit ?s) ! 0) = completed (tasks ?s ! 0)"
    by (simp add: t)
  moreover have "completed bread = True" by (simp add: bread_def)
  ultimately have d: "completed (tasks (saveEdit ?s) ! 0) = True"
    by (simp add: t)
  show ?thesis using a b c m d by simp
qed

section \<open>Ids\<close>

lemma clock_reads_Cons:
  "clock_reads (e # es) s = clock_reads [e] s @ clock_reads es (handle e s)"
  by (cases e) simp_all

lemma ids_handle:
  "set (ids (handle e s)) \<subseteq> set (ids s) \<union> Number_toString ` set (clock_reads [e] s)"
  by (cases e)
    (auto simp add: ids_def setNewTaskText_def addTask_def toggleTask_def deleteTask_def
      startEditing_def setEditingText_def saveEdit_def cancelEdit_def Let_def)

lemma distinct_ids_handle:
  assumes "distinct (ids s)"
    and "\<forall>n \<in> set (clock_reads [e] s). Number_toString n \<notin> set (ids s)"
  shows "distinct (ids (handle e s))"
proof -
  have same: "task_id \<circ> (\<lambda>task. if P task then f task else task) = task_id"
    if "\<And>task. task_id (f task) = task_id task" for P and f :: "Task \<Rightarrow> Task"
    using that by (intro ext) simp
  show ?thesis
  proof (cases e)
    case (AddTask dateNow newDate)
    with assms show ?thesis by (simp add: ids_def addTask_def Let_def)
  next
    case (ToggleTask i)
    with assms show ?thesis by (simp add: ids_def toggleTask_def same)
  next
    case (DeleteTask i)
    with assms show ?thesis by (simp add: ids_def deleteTask_def distinct_map_filter)
  next
    case SaveEdit
    with assms show ?thesis by (simp add: ids_def saveEdit_def same)
  qed (use assms in \<open>simp_all add: ids_def setNewTaskText_def startEditing_def
        setEditingText_def cancelEdit_def\<close>)
qed

text \<open>
  C1, as the claim states it, fails: the id of a new task is the decimal numeral of the
  clock reading, so two tasks added at the same reading share their id.
\<close>

theorem same_clock_counterexample:
  "ids (run [SetNewTaskText (str ''a''), AddTask 5 5, SetNewTaskText (str ''b''), AddTask 5 5]
         initial_State) = [str ''5'', str ''5'']
   \<and> \<not> distinct (ids (run [SetNewTaskText (str ''a''), AddTask 5 5,
                            SetNewTaskText (str ''b''), AddTask 5 5] initial_State))"
  by (simp add: ids_def setNewTaskText_def addTask_def initial_State_def trim_eval
      toString_eval)

text \<open>
  C1, amended. If the ids held by the store are pairwise distinct, the \<open>Date.now()\<close>
  readings that \<open>addTask\<close> takes during a sequence of events are pairwise distinct, and
  none of their decimal numerals is an id already held, then the ids held after the
  sequence (adds with toggles, edits and deletes in between) are pairwise distinct.
\<close>

theorem ids_distinct:
  assumes "distinct (ids s)"
    and "distinct (clock_reads es s)"
    and "\<forall>n \<in> set (clock_reads es s). Number_toString n \<notin> set (ids s)"
  shows "distinct (ids (run es s))"
  using assms
proof (induction es arbitrary: s)
  case Nil
  then show ?case by simp
next
  case (Cons e es)
  have split: "clock_reads (e # es) s = clock_reads [e] s @ clock_reads es (handle e s)"
    by (rule clock_reads_Cons)
  have d1: "distinct (ids (handle e s))"
    using Cons.prems by (intro distinct_ids_handle) (auto simp add: split)
  have d2: "distinct (clock_reads es (handle e s))"
    using Cons.prems(2) by (simp add: split)
  have d3: "\<forall>n \<in> set (clock_reads es (handle e s)). Number_toString n \<notin> set (ids (handle e s))"
  proof
    fix n assume n: "n \<in> set (clock_reads es (handle e s))"
    show "Number_toString n \<notin> set (ids (handle e s))"
    proof
      assume "Number_toString n \<in> set (ids (handle e s))"
      with ids_handle [of e s]
      consider "Number_toString n \<in> set (ids s)"
        | m where "m \<in> set (clock_reads [e] s)" "Number_toString n = Number_toString m"
        by auto
      then show False
      proof cases
        case 1
        with n Cons.prems(3) show False by (simp add: split)
      next
        case 2
        then have "n = m" by (simp add: Number_toString_inj)
        with 2 n Cons.prems(2) show False by (auto simp add: split)
      qed
    qed
  qed
  show ?case using Cons.IH [OF d1 d2 d3] by simp
qed

theorem ids_distinct_witness:
  "distinct (ids initial_State)
   \<and> clock_reads [SetNewTaskText (str ''a''), AddTask 1 1, ToggleTask (str ''1''),
        SetNewTaskText (str ''   ''), AddTask 1 1, SetNewTaskText (str ''b''), AddTask 2 2,
        DeleteTask (str ''1''), SetNewTaskText (str ''a''), AddTask 5 5] initial_State = [1, 2, 5]
   \<and> distinct (ids (run [SetNewTaskText (str ''a''), AddTask 1 1, ToggleTask (str ''1''),
        SetNewTaskText (str ''   ''), AddTask 1 1, SetNewTaskText (str ''b''), AddTask 2 2,
        DeleteTask (str ''1''), SetNewTaskText (str ''a''), AddTask 5 5] initial_State))
   \<and> ids (run [SetNewTaskText (str ''a''), AddTask 1 1, ToggleTask (str ''1''),
        SetNewTaskText (str ''   ''), AddTask 1 1, SetNewTaskText (str ''b''), AddTask 2 2,
        DeleteTask (str ''1''), SetNewTaskText (str ''a''), AddTask 5 5] initial_State) =
       [str ''5'', str ''2'']"
proof -
  let ?es = "[SetNewTaskText (str ''a''), AddTask 1 1, ToggleTask (str ''1''),
        SetNewTaskText (str ''   ''), AddTask 1 1, SetNewTaskText (str ''b''), AddTask 2 2,
        DeleteTask (str ''1''), SetNewTaskText (str ''a''), AddTask 5 5]"
  have a: "distinct (ids initial_State)"
    by (simp add: ids_def initial_State_def)
  have r: "clock_reads ?es initial_State = [1, 2, 5]"
    by (simp add: setNewTaskText_def addTask_def toggleTask_def deleteTask_def
        initial_State_def trim_eval)
  have b: "distinct (clock_reads ?es initial_State)"
    unfolding r by simp
  have c: "\<forall>n \<in> set (clock_reads ?es initial_State).
      Number_toString n \<notin> set (ids initial_State)"
    unfolding r by (simp add: ids_def initial_State_def)
  have d: "ids (run ?es initial_State) = [str ''5'', str ''2'']"
    by (simp add: ids_def setNewTaskText_def addTask_def toggleTask_def deleteTask_def
        initial_State_def trim_eval toString_eval str_eval)
  show ?thesis using a r d ids_distinct [OF a b c] by simp
qed

section \<open>Loading and saving\<close>

lemma keys_eval:
  "str ''id'' \<noteq> str ''createdAt''" "str ''text'' \<noteq> str ''createdAt''"
  "str ''completed'' \<noteq> str ''createdAt''"
  "str ''createdAt'' \<noteq> str ''id''" "str ''createdAt'' \<noteq> str ''text''"
  "str ''createdAt'' \<noteq> str ''completed''"
  by (simp_all add: str_def)

lemma Date_toJSON_no_throw: "\<not> ToPrimitive_throws (Date_toJSON P d)"
  by (cases d) (simp_all add: Date_toJSON_def)

lemma revive_Task_toJSON:
  "revive P (Task_toJSON P t) =
     Inr (obj_of_Task (t\<lparr>createdAt := new_Date P (Some (Date_toJSON P (createdAt t)))\<rparr>))"
  by (simp add: revive_def construct_Date_def Date_toJSON_no_throw Task_toJSON_def
      obj_of_Task_def set_prop_def keys_eval)

lemma array_map_Inl:
  assumes "x \<in> set xs" and "f x = Inl e"
  shows "\<exists>e'. array_map f xs = Inl e'"
  using assms by (induction xs) (auto split: sum.splits)

lemma map_of_set_prop: "map_of (set_prop k v ob) k = Some v"
proof (cases "k \<in> set (map fst ob)")
  case True
  then have "map_of (map (\<lambda>(k', v'). if k' = k then (k', v) else (k', v')) ob) k = Some v"
    by (induction ob) (auto split: prod.splits)
  with True show ?thesis by (simp add: set_prop_def)
next
  case False
  then have "map_of ob k = None" by (simp add: map_of_eq_None_iff)
  with False show ?thesis by (simp add: set_prop_def map_add_def)
qed

lemma revive_Inl_iff: "(\<exists>e. revive P x = Inl e) \<longleftrightarrow> callback_throws x"
  by (cases x)
    (simp_all add: revive_def callback_throws_def construct_Date_def split: option.splits)

lemma revive_createdAt:
  assumes "revive P x = Inr ob"
  shows "\<exists>d. map_of ob (str ''createdAt'') = Some (DateObj d)"
  using assms by (auto simp add: revive_def map_of_set_prop split: sum.splits)

lemma array_map_total:
  assumes "\<forall>x \<in> set xs. \<exists>y. f x = Inr y"
  shows "\<exists>ys. array_map f xs = Inr ys"
  using assms by (induction xs) auto

lemma array_map_pointwise:
  assumes "array_map f xs = Inr ys"
  shows "length ys = length xs \<and> (\<forall>k < length xs. f (xs ! k) = Inr (ys ! k))"
  using assms
proof (induction xs arbitrary: ys)
  case Nil
  then show ?case by simp
next
  case (Cons x xs)
  then obtain y ys' where y: "f x = Inr y" and ys': "array_map f xs = Inr ys'"
    and ys: "ys = y # ys'"
    by (auto split: sum.splits)
  from Cons.IH [OF ys'] y ys show ?case
    by (auto simp add: nth_Cons split: nat.splits)
qed

lemma parse_tasks_array:
  assumes "JSON_parse P saved = Some (JArr xs)" and "\<not> list_ex callback_throws xs"
  shows "\<exists>obs. parse_tasks P saved = Inr obs \<and> array_map (revive P) xs = Inr obs"
proof -
  have "\<forall>x \<in> set xs. \<exists>ob. revive P x = Inr ob"
  proof
    fix x assume "x \<in> set xs"
    with assms(2) have "\<not> callback_throws x" by (auto simp add: list_ex_iff)
    then have "\<not> (\<exists>e. revive P x = Inl e)" by (simp add: revive_Inl_iff)
    then show "\<exists>ob. revive P x = Inr ob" by (cases "revive P x") auto
  qed
  then obtain obs where "array_map (revive P) xs = Inr obs"
    using array_map_total by blast
  with assms(1) show ?thesis by (simp add: parse_tasks_def)
qed

lemma parse_tasks_throws:
  assumes "JSON_parse P saved = Some (JArr xs)" and "list_ex callback_throws xs"
  shows "\<exists>e. parse_tasks P saved = Inl e"
proof -
  from assms(2) obtain x where x: "x \<in> set xs" "callback_throws x"
    by (auto simp add: list_ex_iff)
  then obtain e where "revive P x = Inl e"
    using revive_Inl_iff [of P x] by blast
  with x(1) have "\<exists>e'. array_map (revive P) xs = Inl e'"
    by (rule array_map_Inl)
  with assms(1) show ?thesis by (simp add: parse_tasks_def)
qed

lemma sample_eval:
  "JSON_parse sample_platform (str ''[{}]'') = Some (JArr [JObj []])"
  "JSON_parse sample_platform (str ''[null]'') = Some (JArr [JNull])"
  "JSON_parse sample_platform (str ''[{\"createdAt\":{\"toString\":0}}]'') =
     Some (JArr [JObj [(str ''createdAt'', JObj [(str ''toString'', JNum 0)])]])"
  "JSON_parse sample_platform (str ''{\"a\":[]}'') = Some (JObj [(str ''a'', JArr [])])"
  "JSON_parse sample_platform (str ''oops'') = None"
  "JSON_parse sample_platform [] = None"
  "JSON_parse sample_platform milk_text = Some milk_json"
  "JSON_stringify sample_platform milk_json = milk_text"
  "Date_toISOString sample_platform 1 = str ''1970-01-01T00:00:00.001Z''"
  "new_Date sample_platform (Some (JStr (str ''1970-01-01T00:00:00.001Z''))) = Date_ms 1"
  "new_Date sample_platform None = Invalid_Date"
  by (simp_all add: sample_platform_def milk_text_def str_def)

lemma Task_toJSON_milk: "JArr (map (Task_toJSON sample_platform) [milk]) = milk_json"
  by (simp add: Task_toJSON_def Date_toJSON_def milk_def milk_json_def sample_eval)

lemma empty_object_not_a_Task: "JObj [] \<noteq> Task_toJSON P t"
  by (simp add: Task_toJSON_def)

text \<open>
  C8, as the claim states it, fails: a stored value that is JSON but not a serialized
  task collection is not discarded. The stored text \<open>[{}]\<close> parses to an array of one
  empty object (which no task serializes to); the effect makes it a collection of one
  entry that has no id, no text and no flag, and an invalid date as \<open>createdAt\<close>.
\<close>

theorem load_unvalidated_counterexample:
  "JSON_parse sample_platform (str ''[{}]'') = Some (JArr [JObj []])
   \<and> load sample_platform [str ''todos'' \<mapsto> str ''[{}]''] =
       [[(str ''createdAt'', DateObj Invalid_Date)]]
   \<and> load sample_platform [str ''todos'' \<mapsto> str ''[{}]''] \<noteq> []"
  by (simp add: load_def load_effect_def todos_key_def parse_tasks_def revive_def
      construct_Date_def set_prop_def sample_eval)

text \<open>
  C8, amended. Once \<open>localStorage\<close> has been read (the read stands before the \<open>try\<close>
  block, and is taken to succeed), the load effect raises nothing: every exception of
  the \<open>try\<close> block is caught, and the tasks stay empty. The loaded sequence is empty
  when nothing is stored under \<open>"todos"\<close>, when the stored string is empty, when
  \<open>JSON.parse\<close> rejects it, when it parses to a value that is not an array, and when it
  parses to an array with an element the callback throws on: \<open>null\<close>, or an element
  whose \<open>createdAt\<close> is an object with an own property \<open>toString\<close>, or an array that
  holds such an object. A stored string that parses to an array without such an element
  is loaded as it is, element by element and without a check of its shape: the loaded
  sequence has the array's length, its entry at each position is what the callback
  (\<open>revive\<close>) makes of the array's element there, and every entry has a \<open>Date\<close> object
  as its \<open>createdAt\<close>. For a well-formed stored value, the JSON of tasks \<open>ts\<close>, the loaded
  sequence is \<open>ts\<close> with each \<open>createdAt\<close> rebuilt by \<open>new Date\<close> from the stored
  timestamp.
\<close>

theorem load_masks_failures:
  "(localStorage (str ''todos'') = None \<longrightarrow> load P localStorage = [])
   \<and> (localStorage (str ''todos'') = Some [] \<longrightarrow> load P localStorage = [])
   \<and> (localStorage (str ''todos'') = Some saved \<and> parse_tasks P saved = Inl e \<longrightarrow>
        load P localStorage = [])
   \<and> (localStorage (str ''todos'') = Some saved \<and> JSON_parse P saved = None \<longrightarrow>
        load P localStorage = [])
   \<and> (localStorage (str ''todos'') = Some saved \<and> JSON_parse P saved = Some j \<and> \<not> is_array j \<longrightarrow>
        load P localStorage = [])
   \<and> (localStorage (str ''todos'') = Some saved \<and> JSON_parse P saved = Some (JArr xs) \<and>
        list_ex callback_throws xs \<longrightarrow>
        load P localStorage = [])
   \<and> (localStorage (str ''todos'') = Some saved \<and> saved \<noteq> [] \<and>
        JSON_parse P saved = Some (JArr xs) \<and> \<not> list_ex callback_throws xs \<longrightarrow>
        length (load P localStorage) = length xs
        \<and> (\<forall>k < length xs. revive P (xs ! k) = Inr (load P localStorage ! k))
        \<and> (\<forall>ob \<in> set (load P localStorage).
              \<exists>d. map_of ob (str ''createdAt'') = Some (DateObj d)))
   \<and> (localStorage (str ''todos'') = Some saved \<and> saved \<noteq> [] \<and>
        JSON_parse P saved = Some (JArr (map (Task_toJSON P) ts)) \<longrightarrow>
        load P localStorage =
          map (\<lambda>t. obj_of_Task
                 (t\<lparr>createdAt := new_Date P (Some (Date_toJSON P (createdAt t)))\<rparr>)) ts)"
proof -
  have absent: "localStorage (str ''todos'') = None \<longrightarrow> load P localStorage = []"
    by (simp add: load_def load_effect_def todos_key_def)
  have falsy: "localStorage (str ''todos'') = Some [] \<longrightarrow> load P localStorage = []"
    by (simp add: load_def load_effect_def todos_key_def truthy_def)
  have caught: "localStorage (str ''todos'') = Some saved \<and> parse_tasks P saved = Inl e \<longrightarrow>
      load P localStorage = []"
    by (simp add: load_def load_effect_def todos_key_def)
  have syntax_error: "localStorage (str ''todos'') = Some saved \<and> JSON_parse P saved = None \<longrightarrow>
      load P localStorage = []"
    by (simp add: load_def load_effect_def todos_key_def parse_tasks_def)
  have no_array: "localStorage (str ''todos'') = Some saved \<and> JSON_parse P saved = Some j \<and>
      \<not> is_array j \<longrightarrow> load P localStorage = []"
    by (cases j) (simp_all add: load_def load_effect_def todos_key_def parse_tasks_def is_array_def)
  have thrown: "localStorage (str ''todos'') = Some saved \<and>
      JSON_parse P saved = Some (JArr xs) \<and> list_ex callback_throws xs \<longrightarrow>
      load P localStorage = []"
  proof
    assume a: "localStorage (str ''todos'') = Some saved \<and>
      JSON_parse P saved = Some (JArr xs) \<and> list_ex callback_throws xs"
    then obtain e' where "parse_tasks P saved = Inl e'"
      using parse_tasks_throws by blast
    with a show "load P localStorage = []"
      by (simp add: load_def load_effect_def todos_key_def)
  qed
  have loaded: "localStorage (str ''todos'') = Some saved \<and> saved \<noteq> [] \<and>
        JSON_parse P saved = Some (JArr xs) \<and> \<not> list_ex callback_throws xs \<longrightarrow>
        length (load P localStorage) = length xs
        \<and> (\<forall>k < length xs. revive P (xs ! k) = Inr (load P localStorage ! k))
        \<and> (\<forall>ob \<in> set (load P localStorage).
              \<exists>d. map_of ob (str ''createdAt'') = Some (DateObj d))"
  proof
    assume a: "localStorage (str ''todos'') = Some saved \<and> saved \<noteq> [] \<and>
        JSON_parse P saved = Some (JArr xs) \<and> \<not> list_ex callback_throws xs"
    then obtain obs where obs: "parse_tasks P saved = Inr obs" "array_map (revive P) xs = Inr obs"
      using parse_tasks_array by blast
    with a have l: "load P localStorage = obs"
      by (simp add: load_def load_effect_def todos_key_def truthy_def)
    from array_map_pointwise [OF obs(2)]
    have p: "length obs = length xs" "\<forall>k < length xs. revive P (xs ! k) = Inr (obs ! k)"
      by simp_all
    have "\<exists>d. map_of ob (str ''createdAt'') = Some (DateObj d)" if "ob \<in> set obs" for ob
    proof -
      from that obtain k where "k < length obs" "obs ! k = ob"
        by (auto simp add: in_set_conv_nth)
      with p have "revive P (xs ! k) = Inr ob" by simp
      then show ?thesis by (rule revive_createdAt)
    qed
    with l p show "length (load P localStorage) = length xs
        \<and> (\<forall>k < length xs. revive P (xs ! k) = Inr (load P localStorage ! k))
        \<and> (\<forall>ob \<in> set (load P localStorage).
              \<exists>d. map_of ob (str ''createdAt'') = Some (DateObj d))"
      by simp
  qed
  have well_formed: "localStorage (str ''todos'') = Some saved \<and> saved \<noteq> [] \<and>
        JSON_parse P saved = Some (JArr (map (Task_toJSON P) ts)) \<longrightarrow>
        load P localStorage =
          map (\<lambda>t. obj_of_Task
                 (t\<lparr>createdAt := new_Date P (Some (Date_toJSON P (createdAt t)))\<rparr>)) ts"
  proof
    assume a: "localStorage (str ''todos'') = Some saved \<and> saved \<noteq> [] \<and>
        JSON_parse P saved = Some (JArr (map (Task_toJSON P) ts))"
    have "array_map (revive P) (map (Task_toJSON P) ts) =
        Inr (map (\<lambda>x. obj_of_Task
                 (x\<lparr>createdAt := new_Date P (Some (Date_toJSON P (createdAt x)))\<rparr>)) ts)"
      by (induction ts) (simp_all add: revive_Task_toJSON)
    with a show "load P localStorage =
          map (\<lambda>t. obj_of_Task
                 (t\<lparr>createdAt := new_Date P (Some (Date_toJSON P (createdAt t)))\<rparr>)) ts"
      by (simp add: load_def load_effect_def todos_key_def truthy_def parse_tasks_def)
  qed
  show ?thesis
    by (intro conjI absent falsy caught syntax_error no_array thrown loaded well_formed)
qed

theorem load_masks_failures_witness:
  "load sample_platform Map.empty = []
   \<and> load sample_platform [str ''todos'' \<mapsto> []] = []
   \<and> load sample_platform [str ''todos'' \<mapsto> str ''oops''] = []
   \<and> load sample_platform [str ''todos'' \<mapsto> str ''{\"a\":[]}''] = []
   \<and> load sample_platform [str ''todos'' \<mapsto> str ''[null]''] = []
   \<and> load sample_platform [str ''todos'' \<mapsto> str ''[{\"createdAt\":{\"toString\":0}}]''] = []
   \<and> length (load sample_platform [str ''todos'' \<mapsto> str ''[{}]'']) = 1
   \<and> load sample_platform [str ''todos'' \<mapsto> milk_text] = [obj_of_Task milk]
   \<and> map_of (obj_of_Task milk :: int obj) (str ''createdAt'') = Some (DateObj (Date_ms 1))"
proof -
  note inst = load_masks_failures [where P = sample_platform]
  have 1: "load sample_platform Map.empty = []"
    using inst [where localStorage = Map.empty] by simp
  have 2: "load sample_platform [str ''todos'' \<mapsto> []] = []"
    using inst [where localStorage = "[str ''todos'' \<mapsto> []]"] by simp
  have 3: "load sample_platform [str ''todos'' \<mapsto> str ''oops''] = []"
    using inst [where localStorage = "[str ''todos'' \<mapsto> str ''oops'']" and saved = "str ''oops''"]
    by (simp add: sample_eval)
  have 4: "load sample_platform [str ''todos'' \<mapsto> str ''{\"a\":[]}''] = []"
    using inst [where localStorage = "[str ''todos'' \<mapsto> str ''{\"a\":[]}'']"
        and saved = "str ''{\"a\":[]}''" and j = "JObj [(str ''a'', JArr [])]"]
    by (simp add: sample_eval is_array_def)
  have 5: "load sample_platform [str ''todos'' \<mapsto> str ''[null]''] = []"
    using inst [where localStorage = "[str ''todos'' \<mapsto> str ''[null]'']"
        and saved = "str ''[null]''" and xs = "[JNull]"]
    by (simp add: sample_eval callback_throws_def)
  have 9: "load sample_platform [str ''todos'' \<mapsto> str ''[{\"createdAt\":{\"toString\":0}}]''] = []"
    using inst [where localStorage = "[str ''todos'' \<mapsto> str ''[{\"createdAt\":{\"toString\":0}}]'']"
        and saved = "str ''[{\"createdAt\":{\"toString\":0}}]''"
        and xs = "[JObj [(str ''createdAt'', JObj [(str ''toString'', JNum 0)])]]"]
    by (simp add: sample_eval callback_throws_def)
  have 6: "length (load sample_platform [str ''todos'' \<mapsto> str ''[{}]'']) = 1"
    using inst [where localStorage = "[str ''todos'' \<mapsto> str ''[{}]'']"
        and saved = "str ''[{}]''" and xs = "[JObj []]"]
    by (simp add: sample_eval callback_throws_def)
  have nonempty: "milk_text \<noteq> []" by (simp add: milk_text_def)
  have rebuilt: "milk\<lparr>createdAt :=
      new_Date sample_platform (Some (Date_toJSON sample_platform (createdAt milk)))\<rparr> = milk"
    by (simp add: milk_def Date_toJSON_def sample_eval)
  have parsed: "JSON_parse sample_platform milk_text =
      Some (JArr (map (Task_toJSON sample_platform) [milk]))"
    by (simp only: Task_toJSON_milk sample_eval)
  have 7: "load sample_platform [str ''todos'' \<mapsto> milk_text] = [obj_of_Task milk]"
    using inst [where localStorage = "[str ''todos'' \<mapsto> milk_text]"
        and saved = milk_text and ts = "[milk]"] nonempty parsed rebuilt
    by simp
  have 8: "map_of (obj_of_Task milk :: int obj) (str ''createdAt'') = Some (DateObj (Date_ms 1))"
    by (simp add: obj_of_Task_def keys_eval milk_def)
  show ?thesis using 1 2 3 4 5 9 6 7 8 by simp
qed

text \<open>
  C9. Let every task of \<open>ts\<close> have a valid date, and let the platform read back what it
  prints: \<open>JSON.parse\<close> returns the JSON value of \<open>ts\<close> from the text \<open>JSON.stringify\<close>
  prints for it and rejects the empty string, and \<open>new Date\<close> of the ISO string of a time
  value of \<open>ts\<close> is the date of that time value (time values are whole milliseconds, and
  so is the ISO string: nothing is lost). Then loading what \<open>save\<close> stored gives back
  exactly the tasks of \<open>ts\<close>, in order. \<open>save\<close> writes the printed text under the key
  \<open>"todos"\<close>, whatever was stored there, and leaves every other key as it was.
\<close>

theorem save_load_roundtrip:
  assumes valid: "\<forall>t \<in> set ts. valid_Date (createdAt t)"
    and json: "JSON_parse P (JSON_stringify P (JArr (map (Task_toJSON P) ts))) =
          Some (JArr (map (Task_toJSON P) ts))"
    and empty: "JSON_parse P [] = None"
    and dates: "\<forall>t \<in> set ts. \<forall>ms. createdAt t = Date_ms ms \<longrightarrow>
          new_Date P (Some (JStr (Date_toISOString P ms))) = Date_ms ms"
  shows "load P (save P ts localStorage) = map obj_of_Task ts
    \<and> save P ts localStorage (str ''todos'') = Some (JSON_stringify P (JArr (map (Task_toJSON P) ts)))
    \<and> (\<forall>k. k \<noteq> str ''todos'' \<longrightarrow> save P ts localStorage k = localStorage k)"
proof -
  let ?text = "JSON_stringify P (JArr (map (Task_toJSON P) ts))"
  have "?text \<noteq> []" using json empty by auto
  moreover have "revive P (Task_toJSON P t) = Inr (obj_of_Task t)" if "t \<in> set ts" for t
  proof -
    from valid that obtain ms where ms: "createdAt t = Date_ms ms"
      by (cases "createdAt t") (auto simp add: valid_Date_def)
    with dates that have "new_Date P (Some (Date_toJSON P (createdAt t))) = createdAt t"
      by (simp add: Date_toJSON_def)
    then show ?thesis by (simp add: revive_Task_toJSON)
  qed
  then have "array_map (revive P) (map (Task_toJSON P) ts) = Inr (map obj_of_Task ts)"
    by (induction ts) simp_all
  ultimately have "load P (save P ts localStorage) = map obj_of_Task ts"
    using json by (simp add: load_def load_effect_def save_def parse_tasks_def truthy_def)
  then show ?thesis by (simp add: save_def todos_key_def)
qed

theorem save_load_roundtrip_witness:
  "load sample_platform (save sample_platform [milk] Map.empty) = [obj_of_Task milk]
   \<and> save sample_platform [milk] Map.empty (str ''todos'') = Some milk_text"
proof -
  have valid: "\<forall>t \<in> set [milk]. valid_Date (createdAt t)"
    by (simp add: milk_def valid_Date_def)
  have json: "JSON_parse sample_platform
        (JSON_stringify sample_platform (JArr (map (Task_toJSON sample_platform) [milk]))) =
      Some (JArr (map (Task_toJSON sample_platform) [milk]))"
    by (simp only: Task_toJSON_milk sample_eval)
  have empty: "JSON_parse sample_platform [] = None"
    by (rule sample_eval)
  have dates: "\<forall>t \<in> set [milk]. \<forall>ms. createdAt t = Date_ms ms \<longrightarrow>
      new_Date sample_platform (Some (JStr (Date_toISOString sample_platform ms))) = Date_ms ms"
    by (simp add: milk_def sample_eval)
  have printed: "JSON_stringify sample_platform (JArr (map (Task_toJSON sample_platform) [milk])) =
      milk_text"
    by (simp only: Task_toJSON_milk sample_eval)
  from save_load_roundtrip [OF valid json empty dates, of Map.empty] printed
  show ?thesis by simp
qed

end
